theory Spec2Isabelle
  imports Main
begin

section \<open>Values produced by the JSON decoder\<close>

text \<open>
  The client in \<^verbatim>\<open>list_notebooks.py\<close> only looks at values after \<^verbatim>\<open>json.loads\<close>.
  A decoded document is one of Python's \<^verbatim>\<open>None\<close>, \<^verbatim>\<open>bool\<close>, \<^verbatim>\<open>int\<close>,
  \<^verbatim>\<open>float\<close>, \<^verbatim>\<open>str\<close>, \<^verbatim>\<open>list\<close> or \<^verbatim>\<open>dict\<close> (keys are always strings).
  A finite float \<open>FNum m e\<close> is kept exactly as mantissa and binary exponent
  (\<open>m * 2 ^ e\<close>); the decoder also accepts \<^verbatim>\<open>Infinity\<close>, \<^verbatim>\<open>-Infinity\<close> and
  \<^verbatim>\<open>NaN\<close>.
  A dict is an association list in insertion order, looked up with \<open>map_of\<close>.
\<close>

datatype pyfloat = FNum int int | FInf bool | FNaN

datatype pyval =
    PNone
  | PBool bool
  | PInt int
  | PFloat pyfloat
  | PStr string
  | PList "pyval list"
  | PDict "(string \<times> pyval) list"

text \<open>
  The exceptions a session can end with: \<open>SpawnError\<close> is what
  \<^verbatim>\<open>create_subprocess_exec\<close> raises for a missing or unexecutable path,
  \<open>WriteError\<close> what a send raises on a closed or broken pipe, \<open>DecodeError\<close> what
  \<^verbatim>\<open>json.loads(line.decode())\<close> raises on a line it rejects; \<open>AttributeError\<close>,
  \<open>TypeError\<close> and \<open>ProcessLookupError\<close> are Python's own.
\<close>

datatype error =
  SpawnError | WriteError | DecodeError | AttributeError | TypeError | ProcessLookupError

text \<open>Truth value of a Python object, as used by \<^verbatim>\<open>if not resp\<close>.\<close>

fun float_nonzero :: "pyfloat \<Rightarrow> bool" where
  "float_nonzero (FNum m e) = (m \<noteq> 0)"
| "float_nonzero (FInf b) = True"
| "float_nonzero FNaN = True"

fun truthy :: "pyval \<Rightarrow> bool" where
  "truthy PNone = False"
| "truthy (PBool b) = b"
| "truthy (PInt i) = (i \<noteq> 0)"
| "truthy (PFloat f) = float_nonzero f"
| "truthy (PStr s) = (s \<noteq> [])"
| "truthy (PList xs) = (xs \<noteq> [])"
| "truthy (PDict d) = (d \<noteq> [])"

text \<open>
  Python's \<^verbatim>\<open>v == n\<close> for an integer literal \<open>n\<close>: \<^verbatim>\<open>bool\<close> is a subclass of
  \<^verbatim>\<open>int\<close> (\<^verbatim>\<open>True == 1\<close>), a float is compared by its exact value, and every other
  type is unequal to an integer.
\<close>

fun float_eq_int :: "pyfloat \<Rightarrow> int \<Rightarrow> bool" where
  "float_eq_int (FNum m e) n =
     (if 0 \<le> e then m * 2 ^ nat e = n else m = n * 2 ^ nat (- e))"
| "float_eq_int (FInf b) n = False"
| "float_eq_int FNaN n = False"

fun py_eq_int :: "pyval \<Rightarrow> int \<Rightarrow> bool" where
  "py_eq_int (PInt i) n = (i = n)"
| "py_eq_int (PBool b) n = ((if b then 1 else 0) = n)"
| "py_eq_int (PFloat f) n = float_eq_int f n"
| "py_eq_int PNone n = False"
| "py_eq_int (PStr s) n = False"
| "py_eq_int (PList xs) n = False"
| "py_eq_int (PDict d) n = False"

text \<open>
  \<^verbatim>\<open>x.get(key, default)\<close>: only a dict has the method; on any other decoded value the
  attribute lookup raises \<^verbatim>\<open>AttributeError\<close>.
\<close>

fun py_get :: "pyval \<Rightarrow> string \<Rightarrow> pyval \<Rightarrow> error + pyval" where
  "py_get (PDict d) k dflt = Inr (case map_of d k of None \<Rightarrow> dflt | Some v \<Rightarrow> v)"
| "py_get PNone k dflt = Inl AttributeError"
| "py_get (PBool b) k dflt = Inl AttributeError"
| "py_get (PInt i) k dflt = Inl AttributeError"
| "py_get (PFloat f) k dflt = Inl AttributeError"
| "py_get (PStr s) k dflt = Inl AttributeError"
| "py_get (PList xs) k dflt = Inl AttributeError"

text \<open>
  \<^verbatim>\<open>for item in content\<close>: a list yields its elements, a string its characters, a dict
  its keys; the remaining decoded values are not iterable (\<^verbatim>\<open>TypeError\<close>).
\<close>

fun py_iter :: "pyval \<Rightarrow> error + pyval list" where
  "py_iter (PList xs) = Inr xs"
| "py_iter (PStr s) = Inr (map (\<lambda>c. PStr [c]) s)"
| "py_iter (PDict d) = Inr (map (\<lambda>kv. PStr (fst kv)) d)"
| "py_iter PNone = Inl TypeError"
| "py_iter (PBool b) = Inl TypeError"
| "py_iter (PInt i) = Inl TypeError"
| "py_iter (PFloat f) = Inl TypeError"

section \<open>The subprocess as seen by the client\<close>

text \<open>
  The server process is opaque. What the client can observe of it is: whether
  \<^verbatim>\<open>create_subprocess_exec\<close> succeeds, whether the \<open>k\<close>-th \<^verbatim>\<open>send_msg\<close>
  (write and drain) succeeds, and what the \<open>k\<close>-th \<^verbatim>\<open>readline\<close> on its standard output
  delivers: end of file (\<^verbatim>\<open>b""\<close>), a line on which \<^verbatim>\<open>json.loads(line.decode())\<close>
  raises, or a line that decodes to a value. The output may go on forever; a server that
  stays silent without closing its output is, for the client, the same as one that keeps
  sending lines the client discards: the read loop never ends.

  A pipe can be closed by a child that lives on, or because the child has exited.
  \<open>child_gone\<close> says which: when it holds, the child has exited and its pipes are
  closed by the time the client is told that a pipe is closed, and asyncio's transport
  has let go of the process (\<^verbatim>\<open>_proc\<close> is \<^verbatim>\<open>None\<close>). The client is told that a
  pipe is closed by a \<^verbatim>\<open>readline\<close> that returns \<^verbatim>\<open>b""\<close> or by a send that raises; the
  state keeps in \<open>lost\<close> whether the last operation on the pipes was such a one. After
  a read that delivered a line the client runs on without suspending, so the transport
  still holds the process.

  Every interaction with the outside is recorded as an event, in program order.
\<close>

datatype rd = Eof | Bad | Doc pyval

record env =
  spawn_ok :: bool
  write_ok :: "nat \<Rightarrow> bool"
  stdout :: "nat \<Rightarrow> rd"
  child_gone :: bool

datatype event = Spawn | Write pyval | Readline | Print pyval | Terminate | Wait

record st =
  reads :: nat
  writes :: nat
  lost :: bool
  trace :: "event list"

definition init_state :: st where
  "init_state = \<lparr>reads = 0, writes = 0, lost = False, trace = []\<rparr>"

definition emit :: "event \<Rightarrow> st \<Rightarrow> st" where
  "emit ev s = s\<lparr>trace := trace s @ [ev]\<rparr>"

section \<open>The client\<close>

text \<open>
  \<^verbatim>\<open>send_msg\<close> (lines 17 to 19): the message is serialised and handed to the pipe, then
  drained. A closed or broken pipe makes the call raise; the error is \<open>WriteError\<close>.
\<close>

definition send_msg :: "env \<Rightarrow> pyval \<Rightarrow> st \<Rightarrow> (error + unit) \<times> st" where
  "send_msg e msg s =
     (let s' = emit (Write msg) (s\<lparr>writes := Suc (writes s), lost := \<not> write_ok e (writes s)\<rparr>)
      in if write_ok e (writes s) then (Inr (), s') else (Inl WriteError, s'))"

text \<open>
  \<^verbatim>\<open>read_msg\<close> (lines 21 to 24): one \<^verbatim>\<open>readline\<close>; an empty read returns \<^verbatim>\<open>None\<close>,
  anything else is decoded, and a decoding failure raises.
\<close>

definition read_msg :: "env \<Rightarrow> st \<Rightarrow> (error + pyval) \<times> st" where
  "read_msg e s =
     (case stdout e (reads s) of
        Eof \<Rightarrow> (Inr PNone, emit Readline (s\<lparr>reads := Suc (reads s), lost := True\<rparr>))
      | Bad \<Rightarrow> (Inl DecodeError, emit Readline (s\<lparr>reads := Suc (reads s), lost := False\<rparr>))
      | Doc v \<Rightarrow> (Inr v, emit Readline (s\<lparr>reads := Suc (reads s), lost := False\<rparr>)))"

text \<open>
  The two \<^verbatim>\<open>while True\<close> loops (lines 40 to 44 and 58 to 66) have the same skeleton and
  differ in the identifier they wait for: read a message; leave the loop when it is
  falsy; leave the loop with the message when \<^verbatim>\<open>resp.get("id")\<close> equals the identifier;
  otherwise read again. The loop need not end, so its result is an option: \<open>None\<close> is
  a loop that runs forever. \<open>Inr None\<close> is the loop left by \<^verbatim>\<open>if not resp: break\<close>,
  \<open>Inr (Some resp)\<close> the loop left with the matching message.
\<close>

partial_function (option) await_response ::
  "env \<Rightarrow> int \<Rightarrow> st \<Rightarrow> ((error + pyval option) \<times> st) option" where
  "await_response e n s =
     (case read_msg e s of
        (Inl err, s') \<Rightarrow> Some (Inl err, s')
      | (Inr resp, s') \<Rightarrow>
          if \<not> truthy resp then Some (Inr None, s')
          else (case py_get resp ''id'' PNone of
                  Inl err \<Rightarrow> Some (Inl err, s')
                | Inr v \<Rightarrow>
                    if py_eq_int v n then Some (Inr (Some resp), s')
                    else await_response e n s'))"

text \<open>Lines 64 and 65: print the \<^verbatim>\<open>text\<close> of every item, in order.\<close>

fun print_items :: "pyval list \<Rightarrow> st \<Rightarrow> (error + unit) \<times> st" where
  "print_items [] s = (Inr (), s)"
| "print_items (item # items) s =
     (case py_get item ''text'' (PStr '''') of
        Inl err \<Rightarrow> (Inl err, s)
      | Inr t \<Rightarrow> print_items items (emit (Print t) s))"

text \<open>Lines 62 to 65: what is done with the message that answers request 2.\<close>

definition print_result :: "pyval \<Rightarrow> st \<Rightarrow> (error + unit) \<times> st" where
  "print_result resp s =
     (case py_get resp ''result'' (PDict []) of
        Inl err \<Rightarrow> (Inl err, s)
      | Inr result \<Rightarrow>
          (case py_get result ''content'' (PList []) of
             Inl err \<Rightarrow> (Inl err, s)
           | Inr content \<Rightarrow>
               (case py_iter content of
                  Inl err \<Rightarrow> (Inl err, s)
                | Inr items \<Rightarrow> print_items items s)))"

text \<open>The two requests (lines 28 to 37 and 47 to 55).\<close>

definition init_request :: pyval where
  "init_request = PDict
     [(''jsonrpc'', PStr ''2.0''),
      (''id'', PInt 1),
      (''method'', PStr ''initialize''),
      (''params'', PDict
         [(''protocolVersion'', PStr ''2024-11-05''),
          (''capabilities'', PDict []),
          (''clientInfo'', PDict [(''name'', PStr ''test-client''), (''version'', PStr ''1.0.0'')])])]"

definition call_request :: pyval where
  "call_request = PDict
     [(''jsonrpc'', PStr ''2.0''),
      (''id'', PInt 2),
      (''method'', PStr ''tools/call''),
      (''params'', PDict [(''name'', PStr ''notebook_list''), (''arguments'', PDict [])])]"

text \<open>The body of the \<^verbatim>\<open>try\<close> block (lines 27 to 66).\<close>

definition try_body :: "env \<Rightarrow> st \<Rightarrow> ((error + unit) \<times> st) option" where
  "try_body e s0 =
     (case send_msg e init_request s0 of
        (Inl err, s1) \<Rightarrow> Some (Inl err, s1)
      | (Inr u, s1) \<Rightarrow>
          (case await_response e 1 s1 of
             None \<Rightarrow> None
           | Some (Inl err, s2) \<Rightarrow> Some (Inl err, s2)
           | Some (Inr r1, s2) \<Rightarrow>
               (case send_msg e call_request s2 of
                  (Inl err, s3) \<Rightarrow> Some (Inl err, s3)
                | (Inr u, s3) \<Rightarrow>
                    (case await_response e 2 s3 of
                       None \<Rightarrow> None
                     | Some (Inl err, s4) \<Rightarrow> Some (Inl err, s4)
                     | Some (Inr None, s4) \<Rightarrow> Some (Inr (), s4)
                     | Some (Inr (Some resp), s4) \<Rightarrow> Some (print_result resp s4)))))"

text \<open>
  The \<^verbatim>\<open>finally\<close> clause (lines 68 to 70), entered with the outcome of the body.
  \<^verbatim>\<open>process.terminate()\<close> raises \<^verbatim>\<open>ProcessLookupError\<close> when the transport has let go
  of the process: then \<^verbatim>\<open>process.wait()\<close> is not reached, and the new exception takes
  the place of the body's outcome. Otherwise the signal is sent, \<^verbatim>\<open>process.wait()\<close> is
  awaited, and the body's outcome stands: its exception, if any, is raised again.
  \<^verbatim>\<open>process.wait()\<close> is taken to return, that is, the child is taken to exit once it is
  signalled.
\<close>

definition finally_clause :: "env \<Rightarrow> (error + unit) \<times> st \<Rightarrow> (error + unit) \<times> event list" where
  "finally_clause e rs =
     (if child_gone e \<and> lost (snd rs)
      then (Inl ProcessLookupError, trace (emit Terminate (snd rs)))
      else (fst rs, trace (emit Wait (emit Terminate (snd rs)))))"

text \<open>
  \<^verbatim>\<open>list_notebooks\<close> (lines 6 to 70). The subprocess is created outside the \<^verbatim>\<open>try\<close>;
  the \<^verbatim>\<open>finally\<close> clause runs after the body however it ended. The result is the
  outcome and the events in order, or \<open>None\<close> when the session never ends.
\<close>

definition list_notebooks :: "env \<Rightarrow> ((error + unit) \<times> event list) option" where
  "list_notebooks e =
     (let s0 = emit Spawn init_state
      in if \<not> spawn_ok e then Some (Inl SpawnError, trace s0)
         else (case try_body e s0 of
                 None \<Rightarrow> None
               | Some rs \<Rightarrow> Some (finally_clause e rs)))"

section \<open>Auxiliary notions for the proofs\<close>

text \<open>
  What one pass through the loop body does with the line it reads, for the identifier
  \<open>n\<close>: either the loop goes round again (\<open>Skip\<close>), or it is left with a result.
\<close>

datatype verdict = Skip | Stop "error + pyval option"

definition classify :: "rd \<Rightarrow> int \<Rightarrow> verdict" where
  "classify l n =
     (case l of
        Eof \<Rightarrow> Stop (Inr None)
      | Bad \<Rightarrow> Stop (Inl DecodeError)
      | Doc v \<Rightarrow>
          if \<not> truthy v then Stop (Inr None)
          else (case py_get v ''id'' PNone of
                  Inl err \<Rightarrow> Stop (Inl err)
                | Inr i \<Rightarrow> if py_eq_int i n then Stop (Inr (Some v)) else Skip))"

definition at_eof :: "rd \<Rightarrow> bool" where
  "at_eof l = (case l of Eof \<Rightarrow> True | Bad \<Rightarrow> False | Doc v \<Rightarrow> False)"

text \<open>The state after the reads of the lines \<open>reads s\<close> to \<open>reads s + k\<close>.\<close>

definition advance :: "env \<Rightarrow> nat \<Rightarrow> st \<Rightarrow> st" where
  "advance e k s =
     s\<lparr>reads := reads s + Suc k, lost := at_eof (stdout e (reads s + k)),
       trace := trace s @ replicate (Suc k) Readline\<rparr>"

text \<open>The \<open>k\<close> lines from position \<open>p\<close> on are all discarded by the loop for \<open>n\<close>.\<close>

definition discards :: "env \<Rightarrow> int \<Rightarrow> nat \<Rightarrow> nat \<Rightarrow> bool" where
  "discards e n p k = (\<forall>j<k. classify (stdout e (p + j)) n = Skip)"

text \<open>
  The events up to the end of the first loop when it reads \<open>k + 1\<close> lines, and up to the
  end of the second loop when that reads \<open>m + 1\<close> lines.
\<close>

definition handshake_trace :: "nat \<Rightarrow> event list" where
  "handshake_trace k = Spawn # Write init_request # replicate (Suc k) Readline"

definition call_trace :: "nat \<Rightarrow> nat \<Rightarrow> event list" where
  "call_trace k m = handshake_trace k @ Write call_request # replicate (Suc m) Readline"

section \<open>Concrete servers\<close>

text \<open>
  A server that writes the given lines and then closes its output, and a pipe on which
  the first \<open>n\<close> sends succeed.
\<close>

definition stream_of :: "rd list \<Rightarrow> nat \<Rightarrow> rd" where
  "stream_of xs k = (if k < length xs then xs ! k else Eof)"

definition first_writes_ok :: "nat \<Rightarrow> nat \<Rightarrow> bool" where
  "first_writes_ok n k = (k < n)"

text \<open>
  The replies and notifications of the scenarios: \<^verbatim>\<open>{"id":1,"result":{}}\<close>,
  \<^verbatim>\<open>{"method":"log","params":{}}\<close>, the reply with two notebooks of scenario A, a reply
  whose second item has no \<^verbatim>\<open>text\<close>, \<^verbatim>\<open>{"id":2,"result":{}}\<close>, and an error reply.
\<close>

definition init_reply :: pyval where
  "init_reply = PDict [(''id'', PInt 1), (''result'', PDict [])]"


definition list_reply :: pyval where
  "list_reply = PDict
     [(''id'', PInt 2),
      (''result'', PDict
         [(''content'', PList [PDict [(''text'', PStr ''Notebook A'')],
                               PDict [(''text'', PStr ''Notebook B'')]])])]"




text \<open>
  Replies whose \<^verbatim>\<open>id\<close> is not the integer 1: \<^verbatim>\<open>{"id":true}\<close> and \<^verbatim>\<open>{"id":1.0}\<close>.
\<close>

definition true_id_reply :: pyval where
  "true_id_reply = PDict [(''id'', PBool True)]"

definition float_id_reply :: pyval where
  "float_id_reply = PDict [(''id'', PFloat (FNum 1 0))]"

text \<open>Scenarios A and D of the specification.\<close>

definition scenario_A :: env where
  "scenario_A =
     \<lparr>spawn_ok = True, write_ok = first_writes_ok 2,
      stdout = stream_of [Doc init_reply, Doc list_reply], child_gone = False\<rparr>"

definition scenario_D :: env where
  "scenario_D =
     \<lparr>spawn_ok = False, write_ok = first_writes_ok 0, stdout = stream_of [],
      child_gone = False\<rparr>"

text \<open>
  A server that answers the handshake and exits, so that the pipe to it is broken when
  request 2 is sent; and a server that answers the handshake, takes request 2 and exits
  without answering it.
\<close>

definition server_dies_after_handshake :: env where
  "server_dies_after_handshake =
     \<lparr>spawn_ok = True, write_ok = first_writes_ok 1, stdout = stream_of [Doc init_reply],
      child_gone = True\<rparr>"

definition server_exits_unanswered :: env where
  "server_exits_unanswered =
     \<lparr>spawn_ok = True, write_ok = first_writes_ok 2, stdout = stream_of [Doc init_reply],
      child_gone = True\<rparr>"

text \<open>
  Servers that stay alive: one that sends the empty object \<^verbatim>\<open>{}\<close> before its first
  reply; two whose reply to the handshake has the \<^verbatim>\<open>id\<close> \<^verbatim>\<open>true\<close> and \<^verbatim>\<open>1.0\<close>; one
  that answers the handshake and closes its output; one whose second item has no
  \<^verbatim>\<open>text\<close>; one with an empty result; one that answers request 2 with an error; one
  whose first line is the literal \<^verbatim>\<open>NaN\<close>, which is not JSON and which the decoder
  accepts; two that send a line the decoder rejects, during the handshake and after it;
  one that closes its output without sending anything; and one that closes both its
  input and its output at once.
\<close>

definition server_empty_object :: env where
  "server_empty_object =
     \<lparr>spawn_ok = True, write_ok = first_writes_ok 2,
      stdout = stream_of [Doc (PDict []), Doc init_reply], child_gone = False\<rparr>"

definition server_true_id :: env where
  "server_true_id =
     \<lparr>spawn_ok = True, write_ok = first_writes_ok 2,
      stdout = stream_of [Doc true_id_reply], child_gone = False\<rparr>"

definition server_float_id :: env where
  "server_float_id =
     \<lparr>spawn_ok = True, write_ok = first_writes_ok 2,
      stdout = stream_of [Doc float_id_reply], child_gone = False\<rparr>"

definition server_handshake_only :: env where
  "server_handshake_only =
     \<lparr>spawn_ok = True, write_ok = first_writes_ok 2,
      stdout = stream_of [Doc init_reply], child_gone = False\<rparr>"







definition server_silent :: env where
  "server_silent =
     \<lparr>spawn_ok = True, write_ok = first_writes_ok 2, stdout = stream_of [],
      child_gone = False\<rparr>"

definition server_closed_pipes :: env where
  "server_closed_pipes =
     \<lparr>spawn_ok = True, write_ok = first_writes_ok 1, stdout = stream_of [],
      child_gone = False\<rparr>"

text \<open>A server that is gone before it has sent anything.\<close>

definition server_dead_at_once :: env where
  "server_dead_at_once =
     \<lparr>spawn_ok = True, write_ok = first_writes_ok 1, stdout = stream_of [],
      child_gone = True\<rparr>"

section \<open>The read loop\<close>

lemma await_response_body:
  "(case read_msg e s of
        (Inl err, s') \<Rightarrow> Some (Inl err, s')
      | (Inr resp, s') \<Rightarrow>
          if \<not> truthy resp then Some (Inr None, s')
          else (case py_get resp ''id'' PNone of
                  Inl err \<Rightarrow> Some (Inl err, s')
                | Inr v \<Rightarrow>
                    if py_eq_int v n then Some (Inr (Some resp), s')
                    else f e n s')) =
   (case classify (stdout e (reads s)) n of
        Stop r \<Rightarrow> Some (r, advance e 0 s)
      | Skip \<Rightarrow> f e n (advance e 0 s))"
  by (simp add: read_msg_def classify_def advance_def at_eof_def emit_def
           split: rd.splits sum.splits)

lemma await_response_unfold:
  "await_response e n s =
     (case classify (stdout e (reads s)) n of
        Stop r \<Rightarrow> Some (r, advance e 0 s)
      | Skip \<Rightarrow> await_response e n (advance e 0 s))"
  by (subst await_response.simps) (simp only: await_response_body)

lemma advance_advance: "advance e k (advance e 0 s) = advance e (Suc k) s"
  by (simp add: advance_def replicate_app_Cons_same)

lemma reads_advance: "reads (advance e k s) = reads s + Suc k"
  by (simp add: advance_def)

lemma discards_0: "discards e n p 0"
  by (simp add: discards_def)

lemma discards_Suc:
  "discards e n p (Suc k) \<longleftrightarrow> classify (stdout e p) n = Skip \<and> discards e n (Suc p) k"
proof
  assume a: "discards e n p (Suc k)"
  then have "classify (stdout e (p + 0)) n = Skip"
    unfolding discards_def by blast
  moreover have "discards e n (Suc p) k"
    unfolding discards_def
  proof (intro allI impI)
    fix j assume "j < k"
    then have "Suc j < Suc k" by simp
    with a have "classify (stdout e (p + Suc j)) n = Skip"
      unfolding discards_def by blast
    then show "classify (stdout e (Suc p + j)) n = Skip" by simp
  qed
  ultimately show "classify (stdout e p) n = Skip \<and> discards e n (Suc p) k" by simp
next
  assume a: "classify (stdout e p) n = Skip \<and> discards e n (Suc p) k"
  show "discards e n p (Suc k)"
    unfolding discards_def
  proof (intro allI impI)
    fix j assume j: "j < Suc k"
    show "classify (stdout e (p + j)) n = Skip"
    proof (cases j)
      case 0
      with a show ?thesis by simp
    next
      case (Suc i)
      with j have "i < k" by simp
      with a have "classify (stdout e (Suc p + i)) n = Skip"
        unfolding discards_def by blast
      with Suc show ?thesis by simp
    qed
  qed
qed

lemma await_response_run:
  "discards e n (reads s) k \<Longrightarrow> classify (stdout e (reads s + k)) n = Stop r \<Longrightarrow>
     await_response e n s = Some (r, advance e k s)"
proof (induction k arbitrary: s)
  case 0
  then show ?case by (subst await_response_unfold) simp
next
  case (Suc k)
  from Suc.prems(1) have h0: "classify (stdout e (reads s)) n = Skip"
    and d: "discards e n (reads (advance e 0 s)) k"
    by (simp_all add: discards_Suc reads_advance)
  from Suc.prems(2) have c: "classify (stdout e (reads (advance e 0 s) + k)) n = Stop r"
    by (simp add: reads_advance)
  have "await_response e n s = await_response e n (advance e 0 s)"
    by (subst await_response_unfold) (simp add: h0)
  also have "\<dots> = Some (r, advance e k (advance e 0 s))"
    by (rule Suc.IH [OF d c])
  finally show ?case by (simp only: advance_advance)
qed

lemma await_response_sound_aux:
  assumes "await_response e n s = Some y"
  shows "\<exists>k. discards e n (reads s) k \<and> classify (stdout e (reads s + k)) n = Stop (fst y)
        \<and> snd y = advance e k s"
proof (rule await_response.raw_induct
    [where P = "\<lambda>e n s y. \<exists>k. discards e n (reads s) k
        \<and> classify (stdout e (reads s + k)) n = Stop (fst y) \<and> snd y = advance e k s",
     OF _ assms])
  fix f :: "env \<Rightarrow> int \<Rightarrow> st \<Rightarrow> ((error + pyval option) \<times> st) option"
  fix e n s y
  assume IH: "\<And>e n s y. f e n s = Some y \<Longrightarrow>
     \<exists>k. discards e n (reads s) k \<and> classify (stdout e (reads s + k)) n = Stop (fst y)
        \<and> snd y = advance e k s"
  assume "(case read_msg e s of
        (Inl err, s') \<Rightarrow> Some (Inl err, s')
      | (Inr resp, s') \<Rightarrow>
          if \<not> truthy resp then Some (Inr None, s')
          else (case py_get resp ''id'' PNone of
                  Inl err \<Rightarrow> Some (Inl err, s')
                | Inr v \<Rightarrow>
                    if py_eq_int v n then Some (Inr (Some resp), s')
                    else f e n s')) = Some y"
  then have body:
    "(case classify (stdout e (reads s)) n of
        Stop r \<Rightarrow> Some (r, advance e 0 s)
      | Skip \<Rightarrow> f e n (advance e 0 s)) = Some y"
    by (simp only: await_response_body)
  show "\<exists>k. discards e n (reads s) k \<and> classify (stdout e (reads s + k)) n = Stop (fst y)
        \<and> snd y = advance e k s"
  proof (cases "classify (stdout e (reads s)) n")
    case Skip
    with body have "f e n (advance e 0 s) = Some y" by simp
    from IH [OF this] obtain k where
      k: "discards e n (reads (advance e 0 s)) k"
         "classify (stdout e (reads (advance e 0 s) + k)) n = Stop (fst y)"
         "snd y = advance e k (advance e 0 s)"
      by blast
    have "discards e n (reads s) (Suc k)"
      using Skip k(1) by (simp add: discards_Suc reads_advance)
    moreover have "classify (stdout e (reads s + Suc k)) n = Stop (fst y)"
      using k(2) by (simp add: reads_advance)
    moreover have "snd y = advance e (Suc k) s"
      using k(3) by (simp only: advance_advance)
    ultimately show ?thesis by blast
  next
    case (Stop r)
    with body have "y = (r, advance e 0 s)" by simp
    with Stop have "discards e n (reads s) 0
        \<and> classify (stdout e (reads s + 0)) n = Stop (fst y) \<and> snd y = advance e 0 s"
      by (simp add: discards_0)
    then show ?thesis by blast
  qed
qed

lemma await_response_sound:
  "await_response e n s = Some (r, s') \<Longrightarrow>
     \<exists>k. discards e n (reads s) k \<and> classify (stdout e (reads s + k)) n = Stop r
        \<and> s' = advance e k s"
  using await_response_sound_aux [of e n s "(r, s')"] by simp

section \<open>Facts about single lines and replies\<close>

lemma classify_Eof: "classify Eof n = Stop (Inr None)"
  by (simp add: classify_def)



lemma classify_found_not_eof: "classify l n = Stop (Inr (Some resp)) \<Longrightarrow> \<not> at_eof l"
  by (cases l) (simp_all add: classify_def at_eof_def)

lemma classify_Stop_Some:
  "classify l n = Stop (Inr (Some resp)) \<Longrightarrow>
     l = Doc resp \<and> (\<exists>d v. resp = PDict d \<and> map_of d ''id'' = Some v \<and> py_eq_int v n)"
  by (cases l; cases resp)
     (auto simp: classify_def split: if_splits sum.splits option.splits pyval.splits)

lemma py_eq_int_cases:
  "py_eq_int v n \<Longrightarrow>
     v = PInt n \<or> (\<exists>f. v = PFloat f \<and> float_eq_int f n)
       \<or> v = PBool True \<and> n = 1 \<or> v = PBool False \<and> n = 0"
  by (cases v) (auto split: if_splits)

lemma classify_init_reply: "classify (Doc init_reply) 1 = Stop (Inr (Some init_reply))"
  by (simp add: classify_def init_reply_def)

lemma classify_list_reply: "classify (Doc list_reply) 2 = Stop (Inr (Some list_reply))"
  by (simp add: classify_def list_reply_def)



lemma stream_of_Nil: "stream_of [] k = Eof"
  by (simp add: stream_of_def)

lemma stream_of_0: "stream_of (x # xs) 0 = x"
  by (simp add: stream_of_def)

lemma stream_of_Suc: "stream_of (x # xs) (Suc k) = stream_of xs k"
  by (simp add: stream_of_def)



lemma print_items_lost: "lost (snd (print_items items s)) = lost s"
proof (induction items arbitrary: s)
  case Nil
  show ?case by simp
next
  case (Cons item items)
  show ?case
  proof (cases "py_get item ''text'' (PStr '''')")
    case (Inl err)
    then show ?thesis by simp
  next
    case (Inr t)
    then show ?thesis by (simp add: Cons.IH emit_def)
  qed
qed

lemma print_result_lost: "lost (snd (print_result resp s)) = lost s"
  by (simp add: print_result_def print_items_lost split: sum.splits)

lemma print_result_list_reply:
  "print_result list_reply s =
     (Inr (), s\<lparr>trace := trace s @ [Print (PStr ''Notebook A''), Print (PStr ''Notebook B'')]\<rparr>)"
  by (simp add: print_result_def list_reply_def emit_def)





section \<open>The paths through a session\<close>

lemma finally_kept:
  "\<not> lost s \<Longrightarrow> finally_clause e (r, s) = (r, trace s @ [Terminate, Wait])"
  by (simp add: finally_clause_def emit_def)

lemma finally_lost:
  "lost s \<Longrightarrow> finally_clause e (r, s) =
     (if child_gone e then (Inl ProcessLookupError, trace s @ [Terminate])
      else (r, trace s @ [Terminate, Wait]))"
  by (simp add: finally_clause_def emit_def)

lemma list_notebooks_spawned:
  "spawn_ok e \<Longrightarrow> list_notebooks e =
     (case try_body e (emit Spawn init_state) of
        None \<Rightarrow> None
      | Some rs \<Rightarrow> Some (finally_clause e rs))"
  by (simp add: list_notebooks_def Let_def)

lemma send_init:
  "send_msg e init_request (emit Spawn init_state) =
     (if write_ok e 0 then Inr () else Inl WriteError,
      \<lparr>reads = 0, writes = Suc 0, lost = \<not> write_ok e 0,
       trace = [Spawn, Write init_request]\<rparr>)"
  by (simp add: send_msg_def emit_def init_state_def Let_def)

lemma await_init:
  assumes "discards e 1 0 k" and "classify (stdout e k) 1 = Stop r"
  shows "await_response e 1
       \<lparr>reads = 0, writes = Suc 0, lost = b, trace = [Spawn, Write init_request]\<rparr> =
     Some (r, \<lparr>reads = Suc k, writes = Suc 0, lost = at_eof (stdout e k),
               trace = handshake_trace k\<rparr>)"
  using await_response_run [of e 1
      "\<lparr>reads = 0, writes = Suc 0, lost = b, trace = [Spawn, Write init_request]\<rparr>" k r]
    assms
  by (simp add: advance_def handshake_trace_def)

lemma send_call:
  "send_msg e call_request
       \<lparr>reads = Suc k, writes = Suc 0, lost = b, trace = handshake_trace k\<rparr> =
     (if write_ok e (Suc 0) then Inr () else Inl WriteError,
      \<lparr>reads = Suc k, writes = Suc (Suc 0), lost = \<not> write_ok e (Suc 0),
       trace = handshake_trace k @ [Write call_request]\<rparr>)"
  by (simp add: send_msg_def emit_def Let_def)

lemma await_call:
  assumes "discards e 2 (Suc k) m" and "classify (stdout e (Suc k + m)) 2 = Stop r"
  shows "await_response e 2
       \<lparr>reads = Suc k, writes = Suc (Suc 0), lost = b,
        trace = handshake_trace k @ [Write call_request]\<rparr> =
     Some (r, \<lparr>reads = Suc k + Suc m, writes = Suc (Suc 0),
               lost = at_eof (stdout e (Suc k + m)), trace = call_trace k m\<rparr>)"
  using await_response_run [of e 2
      "\<lparr>reads = Suc k, writes = Suc (Suc 0), lost = b,
        trace = handshake_trace k @ [Write call_request]\<rparr>" m r]
    assms
  by (simp add: advance_def call_trace_def)

lemma session_write1_fails:
  assumes "spawn_ok e" and "\<not> write_ok e 0"
  shows "list_notebooks e =
     Some (if child_gone e
           then (Inl ProcessLookupError, [Spawn, Write init_request, Terminate])
           else (Inl WriteError, [Spawn, Write init_request, Terminate, Wait]))"
  using assms by (simp add: list_notebooks_spawned try_body_def send_init finally_lost)


lemma session_write2_fails:
  assumes "spawn_ok e" and "write_ok e 0"
    and "discards e 1 0 k" and "classify (stdout e k) 1 = Stop (Inr r1)"
    and "\<not> write_ok e (Suc 0)"
  shows "list_notebooks e =
     Some (if child_gone e
           then (Inl ProcessLookupError, handshake_trace k @ [Write call_request, Terminate])
           else (Inl WriteError, handshake_trace k @ [Write call_request, Terminate, Wait]))"
  using assms(1,2,5) await_init [OF assms(3,4)]
  by (simp add: list_notebooks_spawned try_body_def send_init send_call finally_lost)

lemma session_second_loop:
  assumes "spawn_ok e" and "write_ok e 0"
    and "discards e 1 0 k" and "classify (stdout e k) 1 = Stop (Inr r1)"
    and "write_ok e (Suc 0)"
  shows "list_notebooks e =
     (case await_response e 2
             \<lparr>reads = Suc k, writes = Suc (Suc 0), lost = False,
              trace = handshake_trace k @ [Write call_request]\<rparr> of
        None \<Rightarrow> None
      | Some (Inl err, s4) \<Rightarrow> Some (finally_clause e (Inl err, s4))
      | Some (Inr None, s4) \<Rightarrow> Some (finally_clause e (Inr (), s4))
      | Some (Inr (Some resp), s4) \<Rightarrow> Some (finally_clause e (print_result resp s4)))"
  using assms(1,2,5) await_init [OF assms(3,4)]
  by (simp add: list_notebooks_spawned try_body_def send_init send_call
        split: option.splits sum.splits prod.splits)


lemma session_loop2_absent:
  assumes "spawn_ok e" and "write_ok e 0"
    and "discards e 1 0 k" and "classify (stdout e k) 1 = Stop (Inr r1)"
    and "write_ok e (Suc 0)"
    and "discards e 2 (Suc k) m" and "classify (stdout e (Suc k + m)) 2 = Stop (Inr None)"
  shows "list_notebooks e =
     Some (if child_gone e \<and> at_eof (stdout e (Suc k + m))
           then (Inl ProcessLookupError, call_trace k m @ [Terminate])
           else (Inr (), call_trace k m @ [Terminate, Wait]))"
  using session_second_loop [OF assms(1-5)] await_call [OF assms(6,7)]
  by (simp add: finally_clause_def emit_def)

lemma session_loop2_found:
  assumes "spawn_ok e" and "write_ok e 0"
    and "discards e 1 0 k" and "classify (stdout e k) 1 = Stop (Inr r1)"
    and "write_ok e (Suc 0)"
    and "discards e 2 (Suc k) m" and "classify (stdout e (Suc k + m)) 2 = Stop (Inr (Some resp))"
    and "print_result resp
           \<lparr>reads = Suc k + Suc m, writes = Suc (Suc 0), lost = False, trace = call_trace k m\<rparr>
           = (r, s)"
  shows "list_notebooks e = Some (r, trace s @ [Terminate, Wait])"
proof -
  let ?s4 = "\<lparr>reads = Suc k + Suc m, writes = Suc (Suc 0), lost = False,
              trace = call_trace k m\<rparr>"
  have "lost (snd (print_result resp ?s4)) = lost ?s4" by (rule print_result_lost)
  with assms(8) have "\<not> lost s" by simp
  with session_second_loop [OF assms(1-5)] await_call [OF assms(6,7)]
    classify_found_not_eof [OF assms(7)] assms(8)
  show ?thesis by (simp add: finally_kept)
qed

section \<open>The claims\<close>

text \<open>
  C1 does not hold of the code. The claim is that \<^verbatim>\<open>terminate\<close> and then \<^verbatim>\<open>wait\<close>
  run exactly once on every path on which the subprocess was spawned, a failed write
  among them. A server answers the handshake and exits; the pipe to it is broken
  when request 2 is sent. The send raises, the \<^verbatim>\<open>finally\<close> clause calls
  \<^verbatim>\<open>process.terminate()\<close>, and that call raises \<^verbatim>\<open>ProcessLookupError\<close> because the
  process is gone: \<^verbatim>\<open>process.wait()\<close> is never called, and the session ends with the new
  exception instead of the write's.
\<close>

theorem broken_pipe_cleanup_raises:
  "list_notebooks server_dies_after_handshake =
     Some (Inl ProcessLookupError,
           [Spawn, Write init_request, Readline, Write call_request, Terminate])"
proof -
  have "spawn_ok server_dies_after_handshake" "write_ok server_dies_after_handshake 0"
    "discards server_dies_after_handshake 1 0 0"
    "classify (stdout server_dies_after_handshake 0) 1 = Stop (Inr (Some init_reply))"
    "\<not> write_ok server_dies_after_handshake (Suc 0)"
    by (simp_all add: server_dies_after_handshake_def first_writes_ok_def discards_0
          stream_of_0 classify_init_reply)
  from session_write2_fails [OF this] show ?thesis
    by (simp add: server_dies_after_handshake_def handshake_trace_def)
qed

text \<open>
  C2 does not hold of the code. The claim is that every decoded line whose \<^verbatim>\<open>id\<close>
  differs from the expected one is discarded and that the loop ends only at a matching line
  or at end of file. The test \<^verbatim>\<open>if not resp: break\<close>, meant for the \<^verbatim>\<open>None\<close> of an
  empty read, also leaves the loop on a decoded value that is falsy. A server whose first
  line is the empty object \<^verbatim>\<open>{}\<close> and whose second line is \<^verbatim>\<open>{"id":1,"result":{}}\<close>:
  the loop for identifier 1 ends after one read with no message, although that line is not
  the end of the file and the matching line comes next. The session then sends request 2
  and its second loop reads and discards the reply to request 1.
\<close>

theorem empty_object_ends_loop:
  "await_response server_empty_object 1
       \<lparr>reads = 0, writes = 1, lost = False, trace = [Spawn, Write init_request]\<rparr> =
     Some (Inr None,
           \<lparr>reads = 1, writes = 1, lost = False,
            trace = [Spawn, Write init_request, Readline]\<rparr>)
   \<and> stdout server_empty_object 0 = Doc (PDict [])
   \<and> stdout server_empty_object 1 = Doc init_reply
   \<and> list_notebooks server_empty_object =
       Some (Inr (),
             [Spawn, Write init_request, Readline, Write call_request, Readline, Readline,
              Terminate, Wait])"
proof -
  have c0: "classify (stdout server_empty_object 0) 1 = Stop (Inr None)"
    by (simp add: server_empty_object_def stream_of_0 classify_def)
  from await_init [OF discards_0 c0, of False]
  have loop: "await_response server_empty_object 1
       \<lparr>reads = 0, writes = 1, lost = False, trace = [Spawn, Write init_request]\<rparr> =
     Some (Inr None,
           \<lparr>reads = 1, writes = 1, lost = False,
            trace = [Spawn, Write init_request, Readline]\<rparr>)"
    by (simp add: server_empty_object_def stream_of_0 at_eof_def handshake_trace_def)
  have h: "spawn_ok server_empty_object" "write_ok server_empty_object 0"
    "discards server_empty_object 1 0 0"
    "classify (stdout server_empty_object 0) 1 = Stop (Inr None)"
    "write_ok server_empty_object (Suc 0)"
    "discards server_empty_object 2 (Suc 0) (Suc 0)"
    "classify (stdout server_empty_object (Suc 0 + Suc 0)) 2 = Stop (Inr None)"
    by (simp_all add: server_empty_object_def first_writes_ok_def discards_0 discards_Suc
          stream_of_0 stream_of_Suc stream_of_Nil classify_def init_reply_def)
  from session_loop2_absent [OF h]
  have run: "list_notebooks server_empty_object =
       Some (Inr (),
             [Spawn, Write init_request, Readline, Write call_request, Readline, Readline,
              Terminate, Wait])"
    by (simp add: server_empty_object_def call_trace_def handshake_trace_def)
  from loop run show ?thesis
    by (simp add: server_empty_object_def stream_of_0 stream_of_Suc)
qed

text \<open>
  C3, as stated, fails: the loop for identifier 1 returns the message \<^verbatim>\<open>{"id":true}\<close>,
  and it returns the message \<^verbatim>\<open>{"id":1.0}\<close>. Neither \<^verbatim>\<open>id\<close> is the integer 1; the
  test \<^verbatim>\<open>resp.get("id") == 1\<close> accepts both, since in Python \<^verbatim>\<open>True == 1\<close> and
  \<^verbatim>\<open>1.0 == 1\<close>.
\<close>

theorem other_id_returned_counterexample:
  "await_response server_true_id 1 init_state =
     Some (Inr (Some true_id_reply),
           \<lparr>reads = 1, writes = 0, lost = False, trace = [Readline]\<rparr>)
   \<and> py_get true_id_reply ''id'' PNone = Inr (PBool True)
   \<and> await_response server_float_id 1 init_state =
     Some (Inr (Some float_id_reply),
           \<lparr>reads = 1, writes = 0, lost = False, trace = [Readline]\<rparr>)
   \<and> py_get float_id_reply ''id'' PNone = Inr (PFloat (FNum 1 0))"
proof -
  have "classify (stdout server_true_id (reads init_state + 0)) 1 = Stop (Inr (Some true_id_reply))"
    by (simp add: server_true_id_def stream_of_0 init_state_def classify_def true_id_reply_def)
  from await_response_run [OF discards_0 this]
  have 1: "await_response server_true_id 1 init_state =
     Some (Inr (Some true_id_reply),
           \<lparr>reads = 1, writes = 0, lost = False, trace = [Readline]\<rparr>)"
    by (simp add: advance_def init_state_def server_true_id_def stream_of_0 at_eof_def)
  have "classify (stdout server_float_id (reads init_state + 0)) 1 =
      Stop (Inr (Some float_id_reply))"
    by (simp add: server_float_id_def stream_of_0 init_state_def classify_def float_id_reply_def)
  from await_response_run [OF discards_0 this]
  have 2: "await_response server_float_id 1 init_state =
     Some (Inr (Some float_id_reply),
           \<lparr>reads = 1, writes = 0, lost = False, trace = [Readline]\<rparr>)"
    by (simp add: advance_def init_state_def server_float_id_def stream_of_0 at_eof_def)
  from 1 2 show ?thesis
    by (simp add: true_id_reply_def float_id_reply_def)
qed

text \<open>
  C3, amended. Whenever the loop for identifier \<open>n\<close> is left with a message, that message
  is an object that has an \<^verbatim>\<open>id\<close> field, and the field is equal to \<open>n\<close> as Python's
  \<^verbatim>\<open>==\<close> has it: it is the integer \<open>n\<close>, or a float whose value is \<open>n\<close>, or the
  boolean \<^verbatim>\<open>true\<close> when \<open>n\<close> is 1, or the boolean \<^verbatim>\<open>false\<close> when \<open>n\<close> is 0. A message
  with any other \<^verbatim>\<open>id\<close>, or with none, is never returned.
\<close>

theorem await_response_id:
  assumes "await_response e n s = Some (Inr (Some resp), s')"
  shows "\<exists>d v. resp = PDict d \<and> map_of d ''id'' = Some v
           \<and> (v = PInt n \<or> (\<exists>f. v = PFloat f \<and> float_eq_int f n)
                \<or> v = PBool True \<and> n = 1 \<or> v = PBool False \<and> n = 0)"
proof -
  from await_response_sound [OF assms] obtain k where
    "classify (stdout e (reads s + k)) n = Stop (Inr (Some resp))" by blast
  then obtain d v where "resp = PDict d" "map_of d ''id'' = Some v" "py_eq_int v n"
    by (blast dest: classify_Stop_Some)
  moreover from \<open>py_eq_int v n\<close> have "v = PInt n \<or> (\<exists>f. v = PFloat f \<and> float_eq_int f n)
                \<or> v = PBool True \<and> n = 1 \<or> v = PBool False \<and> n = 0"
    by (rule py_eq_int_cases)
  ultimately show ?thesis by blast
qed

theorem await_response_id_witness:
  "await_response server_handshake_only 1 init_state =
     Some (Inr (Some init_reply), \<lparr>reads = 1, writes = 0, lost = False, trace = [Readline]\<rparr>)
   \<and> (\<exists>d. init_reply = PDict d \<and> map_of d ''id'' = Some (PInt 1))"
proof -
  have "classify (stdout server_handshake_only (reads init_state + 0)) 1 =
      Stop (Inr (Some init_reply))"
    by (simp add: server_handshake_only_def stream_of_0 init_state_def classify_init_reply)
  from await_response_run [OF discards_0 this]
  have run: "await_response server_handshake_only 1 init_state =
     Some (Inr (Some init_reply), \<lparr>reads = 1, writes = 0, lost = False, trace = [Readline]\<rparr>)"
    by (simp add: advance_def init_state_def server_handshake_only_def stream_of_0 at_eof_def)
  from await_response_id [OF run] run show ?thesis
    by (auto simp: init_reply_def)
qed

text \<open>
  C4. Scenario A: the server answers request 1 with \<^verbatim>\<open>{"id":1,"result":{}}\<close> and request 2
  with the two content items \<^verbatim>\<open>Notebook A\<close> and \<^verbatim>\<open>Notebook B\<close>. The session ends
  normally and \<^verbatim>\<open>print\<close> is called exactly twice, with the string \<^verbatim>\<open>Notebook A\<close>
  and then with the string \<^verbatim>\<open>Notebook B\<close> (\<^verbatim>\<open>print\<close> of a string writes it on a line
  of its own).
\<close>

theorem scenario_A_output:
  assumes "spawn_ok e" and "write_ok e 0" and "write_ok e (Suc 0)"
    and "stdout e 0 = Doc init_reply" and "stdout e (Suc 0) = Doc list_reply"
  shows "list_notebooks e =
     Some (Inr (),
           [Spawn, Write init_request, Readline, Write call_request, Readline,
            Print (PStr ''Notebook A''), Print (PStr ''Notebook B''), Terminate, Wait])"
proof -
  have c1: "classify (stdout e 0) 1 = Stop (Inr (Some init_reply))"
    using assms(4) by (simp add: classify_init_reply)
  have c2: "classify (stdout e (Suc 0 + 0)) 2 = Stop (Inr (Some list_reply))"
    using assms(5) by (simp add: classify_list_reply)
  from session_loop2_found [OF assms(1,2) discards_0 c1 assms(3) discards_0 c2
      print_result_list_reply]
  show ?thesis by (simp add: call_trace_def handshake_trace_def)
qed

theorem scenario_A_output_witness:
  "list_notebooks scenario_A =
     Some (Inr (),
           [Spawn, Write init_request, Readline, Write call_request, Readline,
            Print (PStr ''Notebook A''), Print (PStr ''Notebook B''), Terminate, Wait])"
  by (rule scenario_A_output)
     (simp_all add: scenario_A_def first_writes_ok_def stream_of_0 stream_of_Suc)

text \<open>
  C5 does not hold of the code. Scenario C: the server answers the handshake, takes
  request 2 and exits without answering; its output is at its end. The second loop
  ends at its first read with no message and nothing is printed, as the claim says. But
  the \<^verbatim>\<open>finally\<close> clause then calls \<^verbatim>\<open>process.terminate()\<close> on a process that is gone:
  the call raises \<^verbatim>\<open>ProcessLookupError\<close>, \<^verbatim>\<open>process.wait()\<close> is never called, and the
  session ends with that exception.
\<close>

theorem unanswered_exit_cleanup_raises:
  "await_response server_exits_unanswered 2
       \<lparr>reads = 1, writes = 2, lost = False,
        trace = [Spawn, Write init_request, Readline, Write call_request]\<rparr> =
     Some (Inr None,
           \<lparr>reads = 2, writes = 2, lost = True,
            trace = [Spawn, Write init_request, Readline, Write call_request, Readline]\<rparr>)
   \<and> list_notebooks server_exits_unanswered =
       Some (Inl ProcessLookupError,
             [Spawn, Write init_request, Readline, Write call_request, Readline, Terminate])"
proof -
  have h: "spawn_ok server_exits_unanswered" "write_ok server_exits_unanswered 0"
    "discards server_exits_unanswered 1 0 0"
    "classify (stdout server_exits_unanswered 0) 1 = Stop (Inr (Some init_reply))"
    "write_ok server_exits_unanswered (Suc 0)"
    "discards server_exits_unanswered 2 (Suc 0) 0"
    "classify (stdout server_exits_unanswered (Suc 0 + 0)) 2 = Stop (Inr None)"
    by (simp_all add: server_exits_unanswered_def first_writes_ok_def discards_0
          stream_of_0 stream_of_Suc stream_of_Nil classify_init_reply classify_Eof)
  from await_call [OF h(6,7), of False]
  have loop: "await_response server_exits_unanswered 2
       \<lparr>reads = 1, writes = 2, lost = False,
        trace = [Spawn, Write init_request, Readline, Write call_request]\<rparr> =
     Some (Inr None,
           \<lparr>reads = 2, writes = 2, lost = True,
            trace = [Spawn, Write init_request, Readline, Write call_request, Readline]\<rparr>)"
    by (simp add: server_exits_unanswered_def stream_of_0 stream_of_Suc stream_of_Nil
          at_eof_def call_trace_def handshake_trace_def numeral_2_eq_2)
  from session_loop2_absent [OF h]
  have "list_notebooks server_exits_unanswered =
       Some (Inl ProcessLookupError,
             [Spawn, Write init_request, Readline, Write call_request, Readline, Terminate])"
    by (simp add: server_exits_unanswered_def stream_of_0 stream_of_Suc stream_of_Nil
          at_eof_def call_trace_def handshake_trace_def)
  with loop show ?thesis by simp
qed

text \<open>
  C6. When the subprocess cannot be spawned, the session raises \<open>SpawnError\<close>; the only
  event is the attempt to spawn: nothing is written, nothing is read, and neither
  \<^verbatim>\<open>terminate\<close> nor \<^verbatim>\<open>wait\<close> is called.
\<close>

theorem spawn_failure_aborts:
  assumes "\<not> spawn_ok e"
  shows "list_notebooks e = Some (Inl SpawnError, [Spawn])"
  using assms by (simp add: list_notebooks_def emit_def init_state_def)

theorem spawn_failure_aborts_witness:
  "list_notebooks scenario_D = Some (Inl SpawnError, [Spawn])"
proof -
  have "\<not> spawn_ok scenario_D" by (simp add: scenario_D_def)
  then show ?thesis by (rule spawn_failure_aborts)
qed








text \<open>
  C10, as stated, fails. The claim is that after an end of file during the handshake
  the client still sends request 2 and then enters the second read loop. A server that
  closes its output and its input at once: the first loop ends at the end of the file,
  the client goes on to write request 2, the send raises, and the session ends with
  \<open>WriteError\<close> after the cleanup. Nothing is read after request 2 is written: the second
  loop is not entered.
\<close>

theorem closed_pipes_counterexample:
  "stdout server_closed_pipes 0 = Eof
   \<and> list_notebooks server_closed_pipes =
       Some (Inl WriteError,
             [Spawn, Write init_request, Readline, Write call_request, Terminate, Wait])"
proof -
  have h: "spawn_ok server_closed_pipes" "write_ok server_closed_pipes 0"
    "discards server_closed_pipes 1 0 0"
    "classify (stdout server_closed_pipes 0) 1 = Stop (Inr None)"
    "\<not> write_ok server_closed_pipes (Suc 0)"
    by (simp_all add: server_closed_pipes_def first_writes_ok_def discards_0 stream_of_Nil
          classify_Eof)
  from session_write2_fails [OF h] show ?thesis
    by (simp add: server_closed_pipes_def stream_of_Nil handshake_trace_def)
qed

text \<open>
  C10, amended. The output stream reaches its end at line \<open>k\<close>, after \<open>k\<close> discarded
  lines and before any answer to request 1. The client does not stop there: it builds
  request 2 and writes it. When the send succeeds, the second read loop is entered: the
  session is from then on what that loop, started after the write, makes of the lines that
  follow, with the \<^verbatim>\<open>finally\<close> clause after it; if the output is still at its end,
  that loop reads once and the session ends. When the send raises, the session ends
  after the cleanup, with the error of the send, or with \<^verbatim>\<open>ProcessLookupError\<close> when the
  child is gone, and the second loop is not entered.
\<close>

theorem handshake_eof_continues:
  assumes "spawn_ok e" and "write_ok e 0" and "discards e 1 0 k" and "stdout e k = Eof"
  shows "(write_ok e (Suc 0) \<longrightarrow>
            list_notebooks e =
              (case await_response e 2
                      \<lparr>reads = Suc k, writes = 2, lost = False,
                       trace = Spawn # Write init_request # replicate (Suc k) Readline
                                 @ [Write call_request]\<rparr> of
                 None \<Rightarrow> None
               | Some (Inl err, s4) \<Rightarrow> Some (finally_clause e (Inl err, s4))
               | Some (Inr None, s4) \<Rightarrow> Some (finally_clause e (Inr (), s4))
               | Some (Inr (Some resp), s4) \<Rightarrow> Some (finally_clause e (print_result resp s4))))
       \<and> (\<not> write_ok e (Suc 0) \<longrightarrow>
            list_notebooks e =
              Some (if child_gone e
                    then (Inl ProcessLookupError,
                          Spawn # Write init_request # replicate (Suc k) Readline
                            @ [Write call_request, Terminate])
                    else (Inl WriteError,
                          Spawn # Write init_request # replicate (Suc k) Readline
                            @ [Write call_request, Terminate, Wait])))
       \<and> (write_ok e (Suc 0) \<and> stdout e (Suc k) = Eof \<longrightarrow>
            list_notebooks e =
              Some (if child_gone e
                    then (Inl ProcessLookupError,
                          Spawn # Write init_request # replicate (Suc k) Readline
                            @ [Write call_request, Readline, Terminate])
                    else (Inr (),
                          Spawn # Write init_request # replicate (Suc k) Readline
                            @ [Write call_request, Readline, Terminate, Wait])))"
proof -
  have c1: "classify (stdout e k) 1 = Stop (Inr None)"
    using assms(4) by (simp add: classify_Eof)
  have sent: "list_notebooks e =
              (case await_response e 2
                      \<lparr>reads = Suc k, writes = 2, lost = False,
                       trace = Spawn # Write init_request # replicate (Suc k) Readline
                                 @ [Write call_request]\<rparr> of
                 None \<Rightarrow> None
               | Some (Inl err, s4) \<Rightarrow> Some (finally_clause e (Inl err, s4))
               | Some (Inr None, s4) \<Rightarrow> Some (finally_clause e (Inr (), s4))
               | Some (Inr (Some resp), s4) \<Rightarrow> Some (finally_clause e (print_result resp s4)))"
    if w: "write_ok e (Suc 0)"
    using session_second_loop [OF assms(1,2,3) c1 w]
    by (simp add: handshake_trace_def numeral_2_eq_2)
  have failed: "list_notebooks e =
              Some (if child_gone e
                    then (Inl ProcessLookupError,
                          Spawn # Write init_request # replicate (Suc k) Readline
                            @ [Write call_request, Terminate])
                    else (Inl WriteError,
                          Spawn # Write init_request # replicate (Suc k) Readline
                            @ [Write call_request, Terminate, Wait]))"
    if w: "\<not> write_ok e (Suc 0)"
    using session_write2_fails [OF assms(1,2,3) c1 w]
    by (simp add: handshake_trace_def)
  have closed: "list_notebooks e =
              Some (if child_gone e
                    then (Inl ProcessLookupError,
                          Spawn # Write init_request # replicate (Suc k) Readline
                            @ [Write call_request, Readline, Terminate])
                    else (Inr (),
                          Spawn # Write init_request # replicate (Suc k) Readline
                            @ [Write call_request, Readline, Terminate, Wait]))"
    if w: "write_ok e (Suc 0) \<and> stdout e (Suc k) = Eof"
  proof -
    from w have c2: "classify (stdout e (Suc k + 0)) 2 = Stop (Inr None)"
      by (simp add: classify_Eof)
    from w have "write_ok e (Suc 0)" ..
    from session_loop2_absent [OF assms(1,2,3) c1 this discards_0 c2] w
    show ?thesis by (simp add: call_trace_def handshake_trace_def at_eof_def)
  qed
  from sent failed closed show ?thesis by blast
qed

theorem handshake_eof_continues_witness:
  "list_notebooks server_silent =
     Some (Inr (),
       [Spawn, Write init_request, Readline, Write call_request, Readline, Terminate, Wait])
   \<and> list_notebooks server_dead_at_once =
     Some (Inl ProcessLookupError,
       [Spawn, Write init_request, Readline, Write call_request, Terminate])"
proof -
  have h: "spawn_ok server_silent" "write_ok server_silent 0"
    "discards server_silent 1 0 0" "stdout server_silent 0 = Eof"
    by (simp_all add: server_silent_def first_writes_ok_def discards_0 stream_of_Nil)
  have w: "write_ok server_silent (Suc 0) \<and> stdout server_silent (Suc 0) = Eof"
    "\<not> child_gone server_silent"
    by (simp_all add: server_silent_def first_writes_ok_def stream_of_Nil)
  from handshake_eof_continues [OF h] w(1)
  have "list_notebooks server_silent =
     Some (if child_gone server_silent
           then (Inl ProcessLookupError,
                 Spawn # Write init_request # replicate (Suc 0) Readline
                   @ [Write call_request, Readline, Terminate])
           else (Inr (),
                 Spawn # Write init_request # replicate (Suc 0) Readline
                   @ [Write call_request, Readline, Terminate, Wait]))"
    by blast
  with w(2) have 1: "list_notebooks server_silent =
     Some (Inr (),
       [Spawn, Write init_request, Readline, Write call_request, Readline, Terminate, Wait])"
    by simp
  have g: "spawn_ok server_dead_at_once" "write_ok server_dead_at_once 0"
    "discards server_dead_at_once 1 0 0" "stdout server_dead_at_once 0 = Eof"
    by (simp_all add: server_dead_at_once_def first_writes_ok_def discards_0 stream_of_Nil)
  have nw: "\<not> write_ok server_dead_at_once (Suc 0)" "child_gone server_dead_at_once"
    by (simp_all add: server_dead_at_once_def first_writes_ok_def)
  from handshake_eof_continues [OF g] nw(1)
  have "list_notebooks server_dead_at_once =
     Some (if child_gone server_dead_at_once
           then (Inl ProcessLookupError,
                 Spawn # Write init_request # replicate (Suc 0) Readline
                   @ [Write call_request, Terminate])
           else (Inl WriteError,
                 Spawn # Write init_request # replicate (Suc 0) Readline
                   @ [Write call_request, Terminate, Wait]))"
    by blast
  with nw(2) have 2: "list_notebooks server_dead_at_once =
     Some (Inl ProcessLookupError,
       [Spawn, Write init_request, Readline, Write call_request, Terminate])"
    by simp
  from 1 2 show ?thesis by simp
qed

end
